theory Spec2Isabelle
  imports Main
begin

section \<open>Data model\<close>

text \<open>
  The controllers of the backend (\<^verbatim>\<open>tasks.controller.ts\<close>, \<^verbatim>\<open>house.controller.ts\<close>)
  work on three collections of documents. Identifiers (\<^verbatim>\<open>_id\<close>, firebase uid) are strings,
  instants are integers, an optional field (\<^verbatim>\<open>undefined\<close> or \<^verbatim>\<open>null\<close> in the source) is an
  \<open>option\<close>.
\<close>

record UserDocument =
  user_id :: string
  firebaseId :: string
  user_house :: "string option"

record HouseDocument =
  house_id :: string
  owner :: string
  code :: string

record TaskDocument =
  task_id :: string
  house :: string
  name :: string
  description :: string
  pool :: "string list"
  assigned :: "string option"
  interval :: "int option"
  due_date :: "int option"
  last_completed :: "int option"

text \<open>
  Every failure of a request is a value: an \<^verbatim>\<open>HttpException\<close> with its message and status,
  the \<^verbatim>\<open>TypeError\<close> that JavaScript raises when a property of \<^verbatim>\<open>null\<close> is read, and the two
  failures that the specification gives to the task utilities.
\<close>

datatype error =
    HttpException string nat
  | TypeError
  | InvalidPoolError
  | MalformedTaskError

abbreviation BAD_REQUEST :: nat where "BAD_REQUEST \<equiv> 400"
abbreviation NOT_FOUND :: nat where "NOT_FOUND \<equiv> 404"

text \<open>The names that the specification gives to the failures of the controllers.\<close>

abbreviation NotInHouseholdError :: error where
  "NotInHouseholdError \<equiv> HttpException ''user is not in a house'' BAD_REQUEST"
abbreviation EmptyPoolError :: error where
  "EmptyPoolError \<equiv> HttpException ''pool is empty'' BAD_REQUEST"
abbreviation NotOwnerError :: error where
  "NotOwnerError \<equiv> HttpException ''user is not the owner of the house'' BAD_REQUEST"
abbreviation NotAssignedError :: error where
  "NotAssignedError \<equiv> HttpException ''user is not assigned to task'' BAD_REQUEST"
abbreviation TaskNotFoundError :: error where
  "TaskNotFoundError \<equiv> HttpException ''task not found'' NOT_FOUND"

text \<open>
  The payload of a partial update, key by key. A key is absent (\<open>Keep\<close>), present with
  the value \<^verbatim>\<open>undefined\<close> (\<open>Undefined\<close>, as in \<^verbatim>\<open>modifyTask\<close>), present with the value
  \<^verbatim>\<open>null\<close> (\<open>Clear\<close>, as in \<^verbatim>\<open>markTaskAsComplete\<close>), or present with a value (\<open>Put\<close>). The
  keys \<^verbatim>\<open>name\<close>, \<^verbatim>\<open>description\<close> and \<^verbatim>\<open>pool\<close> come from the request body only, where a key
  is either absent or carries a value.
\<close>

datatype 'a upd = Keep | Undefined | Clear | Put 'a

record TaskUpdate =
  upd_name :: "string option"
  upd_description :: "string option"
  upd_pool :: "string list option"
  upd_assigned :: "string upd"
  upd_due_date :: "int upd"
  upd_last_completed :: "int upd"

text \<open>
  The state of the stores: the three collections, and the one setting of the Task Store
  that the handlers depend on. Neither the sources nor the specification fix what an
  update does with a key whose value is \<^verbatim>\<open>undefined\<close>; \<open>omitUndefined\<close> says whether the
  store drops such a key before it writes.
\<close>

record db =
  users :: "UserDocument list"
  houses :: "HouseDocument list"
  tasks :: "TaskDocument list"
  omitUndefined :: bool

section \<open>The stores\<close>

text \<open>
  Modelled from the spec: the services \<^verbatim>\<open>UserStoreService\<close>, \<^verbatim>\<open>HouseStoreService\<close> and
  \<^verbatim>\<open>TaskStoreService\<close> are not among the sources. Section 6 of the specification gives
  their contracts: the Member Directory (\<^verbatim>\<open>findByExternalId\<close>), the Household Directory
  (\<^verbatim>\<open>findById\<close>) and the Task Store (\<^verbatim>\<open>create\<close>, \<^verbatim>\<open>findById\<close>, \<^verbatim>\<open>findAll\<close>,
  \<^verbatim>\<open>update(id, partial)\<close>, \<^verbatim>\<open>delete(id)\<close>), a generic keyed record store. A lookup that
  finds nothing returns \<open>None\<close>, as the controllers expect when they compare the result
  with \<^verbatim>\<open>undefined\<close>. An update or a delete acts on the one document with that key.
\<close>

definition findOneByFirebaseId :: "string \<Rightarrow> db \<Rightarrow> UserDocument option" where
  "findOneByFirebaseId uid d = List.find (\<lambda>u. firebaseId u = uid) (users d)"

text \<open>Modelled from the spec: \<^verbatim>\<open>HouseStoreService.findOne\<close>, the Household Directory's
  \<^verbatim>\<open>findById\<close> of section 6.\<close>

definition houseStore_findOne :: "string \<Rightarrow> db \<Rightarrow> HouseDocument option" where
  "houseStore_findOne hid d = List.find (\<lambda>h. house_id h = hid) (houses d)"

text \<open>Modelled from the spec: \<^verbatim>\<open>TaskStoreService.findOne\<close>, the Task Store's \<^verbatim>\<open>findById\<close> of
  section 6.\<close>

definition taskStore_findOne :: "string \<Rightarrow> db \<Rightarrow> TaskDocument option" where
  "taskStore_findOne tid d = List.find (\<lambda>t. task_id t = tid) (tasks d)"


text \<open>
  Modelled from the spec: what the Task Store writes for one key of a partial update
  (\<^verbatim>\<open>update(id, partial)\<close> of section 6). A key that is absent leaves the field as it is,
  a key with a value sets it, a key that is \<^verbatim>\<open>null\<close> resets it (the reset of
  \<^verbatim>\<open>last_completed\<close> of section 4.2), and so does a key that is still \<^verbatim>\<open>undefined\<close> when it
  is written.
\<close>

fun set_field :: "'a upd \<Rightarrow> 'a option \<Rightarrow> 'a option" where
  "set_field Keep old = old"
| "set_field Undefined old = None"
| "set_field Clear old = None"
| "set_field (Put v) old = Some v"

text \<open>Modelled from the spec: a required field of a task under a partial update.\<close>

fun set_required :: "'a option \<Rightarrow> 'a \<Rightarrow> 'a" where
  "set_required None old = old"
| "set_required (Some v) old = v"

text \<open>Modelled from the spec: the document after \<^verbatim>\<open>update(id, partial)\<close> of section 6.\<close>

definition apply_update :: "TaskUpdate \<Rightarrow> TaskDocument \<Rightarrow> TaskDocument" where
  "apply_update p t = t
     \<lparr> name := set_required (upd_name p) (name t),
       description := set_required (upd_description p) (description t),
       pool := set_required (upd_pool p) (pool t),
       assigned := set_field (upd_assigned p) (assigned t),
       due_date := set_field (upd_due_date p) (due_date t),
       last_completed := set_field (upd_last_completed p) (last_completed t) \<rparr>"

text \<open>Modelled from the spec: \<^verbatim>\<open>update(id, partial)\<close> of section 6 on the collection, at
  the first document with the key.\<close>

fun update_first :: "string \<Rightarrow> TaskUpdate \<Rightarrow> TaskDocument list \<Rightarrow> TaskDocument list" where
  "update_first tid p [] = []"
| "update_first tid p (t # ts) =
     (if task_id t = tid then apply_update p t # ts else t # update_first tid p ts)"

text \<open>Modelled from the spec: \<^verbatim>\<open>delete(id)\<close> of section 6 on the collection, at the first
  document with the key.\<close>

fun delete_first :: "string \<Rightarrow> TaskDocument list \<Rightarrow> TaskDocument list" where
  "delete_first tid [] = []"
| "delete_first tid (t # ts) = (if task_id t = tid then ts else t # delete_first tid ts)"

text \<open>
  The payload as the store writes it: with the setting \<open>omitUndefined\<close> a key that is
  \<^verbatim>\<open>undefined\<close> is dropped from the payload, without it the key stays.
\<close>

fun strip_undefined :: "bool \<Rightarrow> 'a upd \<Rightarrow> 'a upd" where
  "strip_undefined omit Undefined = (if omit then Keep else Undefined)"
| "strip_undefined omit Keep = Keep"
| "strip_undefined omit Clear = Clear"
| "strip_undefined omit (Put v) = Put v"

definition castUpdate :: "bool \<Rightarrow> TaskUpdate \<Rightarrow> TaskUpdate" where
  "castUpdate omit p = p
     \<lparr> upd_assigned := strip_undefined omit (upd_assigned p),
       upd_due_date := strip_undefined omit (upd_due_date p),
       upd_last_completed := strip_undefined omit (upd_last_completed p) \<rparr>"

text \<open>Modelled from the spec: \<^verbatim>\<open>TaskStoreService.update\<close>.\<close>

definition taskStore_update :: "string \<Rightarrow> TaskUpdate \<Rightarrow> db \<Rightarrow> db" where
  "taskStore_update tid p d =
     d\<lparr>tasks := update_first tid (castUpdate (omitUndefined d) p) (tasks d)\<rparr>"

text \<open>Modelled from the spec: \<^verbatim>\<open>TaskStoreService.delete\<close>.\<close>

definition taskStore_delete :: "string \<Rightarrow> db \<Rightarrow> db" where
  "taskStore_delete tid d = d\<lparr>tasks := delete_first tid (tasks d)\<rparr>"

text \<open>Modelled from the spec: \<^verbatim>\<open>TaskStoreService.create\<close>; the new document comes last.\<close>

definition taskStore_create :: "TaskDocument \<Rightarrow> db \<Rightarrow> db" where
  "taskStore_create t d = d\<lparr>tasks := tasks d @ [t]\<rparr>"

section \<open>The task utilities\<close>

text \<open>
  Modelled from the spec: \<^verbatim>\<open>TaskUtil.selectRandomUser\<close> (\<^verbatim>\<open>tasks.util.ts\<close>) is not among the
  sources. Section 4.1 of the specification: given a pool of member identities it picks
  one of them, the index coming from an injectable random source (here the draw
  \<open>rnd\<close>), and it fails with \<open>InvalidPoolError\<close> when the pool is empty.
\<close>

definition selectRandomUser :: "nat \<Rightarrow> string list \<Rightarrow> error + string" where
  "selectRandomUser rnd p =
     (if p = [] then Inl InvalidPoolError else Inr (p ! (rnd mod length p)))"

text \<open>
  Modelled from the spec: \<^verbatim>\<open>TaskUtil.checkRecurrence\<close> (\<^verbatim>\<open>tasks.util.ts\<close>) is not among the
  sources; the controllers only call it, and read \<^verbatim>\<open>id\<close> and \<^verbatim>\<open>updatedTask\<close> of each of
  its results. Section 4.2 of the specification gives the Recurrence Evaluator,
  \<^verbatim>\<open>evaluate(task, now) -> {due, rollover}\<close>: a task is due when
  \<^verbatim>\<open>now >= due_date + interval\<close>; the rollover of a due task has the new due date
  \<^verbatim>\<open>due_date + interval\<close>, resets \<^verbatim>\<open>last_completed\<close>, and picks an assignee from the pool
  with the Assignment Selector when none is set, leaving a set assignee as it is; a task
  that is not due produces no change; a task without interval or due date fails with
  \<open>MalformedTaskError\<close>. \<open>rollover\<close> is the new state of a task that rolls over (step 2).
\<close>

definition rollover :: "int \<Rightarrow> string upd \<Rightarrow> TaskUpdate" where
  "rollover next_due a =
     \<lparr> upd_name = None, upd_description = None, upd_pool = None,
       upd_assigned = a, upd_due_date = Put next_due, upd_last_completed = Clear \<rparr>"

text \<open>Modelled from the spec: \<^verbatim>\<open>evaluate(task, now)\<close> of section 4.2.\<close>

definition evaluate :: "nat \<Rightarrow> int \<Rightarrow> TaskDocument \<Rightarrow> error + (bool \<times> TaskUpdate option)" where
  "evaluate rnd now t =
     (case due_date t of
        None \<Rightarrow> Inl MalformedTaskError
      | Some T \<Rightarrow>
          (case interval t of
             None \<Rightarrow> Inl MalformedTaskError
           | Some I \<Rightarrow>
               if T + I \<le> now then
                 (case assigned t of
                    Some a \<Rightarrow> Inr (True, Some (rollover (T + I) Keep))
                  | None \<Rightarrow>
                      (case selectRandomUser rnd (pool t) of
                         Inl e \<Rightarrow> Inl e
                       | Inr x \<Rightarrow> Inr (True, Some (rollover (T + I) (Put x)))))
               else Inr (False, None)))"

text \<open>
  Modelled from the spec: \<^verbatim>\<open>TaskUtil.checkRecurrence\<close> on a list of tasks, the evaluator run
  on each task at the current instant. The results are the due tasks, each with its
  \<^verbatim>\<open>id\<close> and its \<^verbatim>\<open>updatedTask\<close>. The task at position \<open>i\<close> uses the draw \<open>rnd i\<close> of the
  random source.
\<close>

fun checkRecurrence ::
  "(nat \<Rightarrow> nat) \<Rightarrow> int \<Rightarrow> TaskDocument list \<Rightarrow> error + (string \<times> TaskUpdate) list" where
  "checkRecurrence rnd now [] = Inr []"
| "checkRecurrence rnd now (t # ts) =
     (case evaluate (rnd 0) now t of
        Inl e \<Rightarrow> Inl e
      | Inr (due, r) \<Rightarrow>
          (case checkRecurrence (\<lambda>i. rnd (Suc i)) now ts of
             Inl e \<Rightarrow> Inl e
           | Inr rest \<Rightarrow>
               Inr (case r of None \<Rightarrow> rest | Some u \<Rightarrow> (task_id t, u) # rest)))"


section \<open>The request bodies\<close>

text \<open>
  \<^verbatim>\<open>CreateTaskDto\<close>: the body of a create-task request. The controller overwrites
  \<^verbatim>\<open>assigned\<close> and \<^verbatim>\<open>house\<close> before it hands the body to the store.
\<close>

record CreateTaskDto =
  c_name :: string
  c_description :: string
  c_pool :: "string list"
  c_interval :: "int option"
  c_due_date :: "int option"
  c_assigned :: "string option"
  c_house :: string

text \<open>
  \<^verbatim>\<open>UpdateHouseTasksDto\<close>: the body of an edit, each of name, description and pool given
  or not.
\<close>

record UpdateHouseTasksDto =
  m_name :: "string option"
  m_description :: "string option"
  m_pool :: "string list option"

text \<open>
  Modelled from the spec: the document that the Task Store makes of a create request;
  \<open>oid\<close> is the identifier that the store gives to the new document.
\<close>

definition new_task :: "string \<Rightarrow> CreateTaskDto \<Rightarrow> TaskDocument" where
  "new_task oid dto =
     \<lparr> task_id = oid, house = c_house dto, name = c_name dto,
       description = c_description dto, pool = c_pool dto, assigned = c_assigned dto,
       interval = c_interval dto, due_date = c_due_date dto, last_completed = None \<rparr>"

section \<open>TasksController\<close>

text \<open>
  Every handler takes the state of the stores and returns its answer with the new state.
  The utilities injected into the controller are parameters: \<open>sel\<close> is
  \<^verbatim>\<open>taskUtil.selectRandomUser\<close>, \<open>chk\<close> is \<^verbatim>\<open>taskUtil.checkRecurrence\<close>, and \<open>valid\<close> is
  \<^verbatim>\<open>isValidObjectId\<close> of the mongoose library. Reading a property of a document that a
  lookup did not find raises \<open>TypeError\<close>.
\<close>

definition createTask ::
  "(string list \<Rightarrow> error + string) \<Rightarrow> string \<Rightarrow> db \<Rightarrow> string \<Rightarrow> CreateTaskDto
    \<Rightarrow> (error + unit) \<times> db" where
  "createTask sel oid d uid dto =
     (case findOneByFirebaseId uid d of
        None \<Rightarrow> (Inl TypeError, d)
      | Some userDoc \<Rightarrow>
          (case user_house userDoc of
             None \<Rightarrow> (Inl NotInHouseholdError, d)
           | Some hid \<Rightarrow>
               (case houseStore_findOne hid d of
                  None \<Rightarrow> (Inl NotInHouseholdError, d)
                | Some h \<Rightarrow>
                    if length (c_pool dto) < 1 then (Inl EmptyPoolError, d)
                    else
                      (case sel (c_pool dto) of
                         Inl e \<Rightarrow> (Inl e, d)
                       | Inr a \<Rightarrow>
                           (Inr (),
                            taskStore_create
                              (new_task oid (dto\<lparr>c_assigned := Some a, c_house := house_id h\<rparr>))
                              d)))))"

text \<open>
  The updates of a list of due tasks, \<^verbatim>\<open>update(task.id, task.updatedTask)\<close> for each, on
  the state of the stores and on the collection of tasks alone.
\<close>

definition write_back :: "(string \<times> TaskUpdate) list \<Rightarrow> db \<Rightarrow> db" where
  "write_back due d = foldl (\<lambda>s (tid, p). taskStore_update tid p s) d due"

definition write_all ::
  "bool \<Rightarrow> (string \<times> TaskUpdate) list \<Rightarrow> TaskDocument list \<Rightarrow> TaskDocument list" where
  "write_all omit due ts = foldl (\<lambda>s (tid, p). update_first tid (castUpdate omit p) s) ts due"


definition deleteTaskFromHouse :: "db \<Rightarrow> string \<Rightarrow> string \<Rightarrow> (error + nat \<times> string) \<times> db" where
  "deleteTaskFromHouse d uid tid =
     (case findOneByFirebaseId uid d of
        None \<Rightarrow> (Inl TypeError, d)
      | Some userDoc \<Rightarrow>
          (case user_house userDoc of
             None \<Rightarrow> (Inl (HttpException ''user is not in the house'' BAD_REQUEST), d)
           | Some hid \<Rightarrow>
               (case houseStore_findOne hid d of
                  None \<Rightarrow> (Inl TypeError, d)
                | Some h \<Rightarrow>
                    if owner h = user_id userDoc then
                      (case taskStore_findOne tid d of
                         None \<Rightarrow> (Inl TypeError, d)
                       | Some task \<Rightarrow>
                           (Inr (204, ''task deleted successfully''),
                            taskStore_delete (task_id task) d))
                    else (Inl NotOwnerError, d))))"

definition completed_update :: "int upd \<Rightarrow> TaskUpdate" where
  "completed_update c =
     \<lparr> upd_name = None, upd_description = None, upd_pool = None,
       upd_assigned = Keep, upd_due_date = Keep, upd_last_completed = c \<rparr>"

definition markTaskAsComplete ::
  "(string \<Rightarrow> bool) \<Rightarrow> int \<Rightarrow> db \<Rightarrow> string \<Rightarrow> string \<Rightarrow> bool \<Rightarrow> (error + unit) \<times> db" where
  "markTaskAsComplete valid now d uid tid isComplete =
     (if \<not> valid tid then (Inl (HttpException ''task does not exist'' NOT_FOUND), d)
      else
        (case taskStore_findOne tid d of
           None \<Rightarrow> (Inl TaskNotFoundError, d)
         | Some task \<Rightarrow>
             if assigned task \<noteq> Some uid then (Inl NotAssignedError, d)
             else if isComplete then
               (Inr (), taskStore_update (task_id task) (completed_update (Put now)) d)
             else (Inr (), taskStore_update (task_id task) (completed_update Clear) d)))"

text \<open>
  The edit. \<open>pool_includes\<close> is \<^verbatim>\<open>Array.prototype.includes\<close> at the stored assignee, which no
  pool of identities contains when it is unset. \<open>modify_assigned\<close> is the conditional
  expression that the handler assigns to \<^verbatim>\<open>updatedTask.assigned\<close>, and \<open>updatedTask\<close> the
  payload \<^verbatim>\<open>{ ...updateHouseTasksDto, assigned }\<close>.
\<close>

definition pool_includes :: "string list \<Rightarrow> string option \<Rightarrow> bool" where
  "pool_includes p a = (case a of None \<Rightarrow> False | Some x \<Rightarrow> x \<in> set p)"

definition modify_assigned ::
  "(string list \<Rightarrow> error + string) \<Rightarrow> TaskDocument \<Rightarrow> UpdateHouseTasksDto \<Rightarrow> error + string upd"
  where
  "modify_assigned sel task dto =
     (case m_pool dto of
        None \<Rightarrow> Inr Undefined
      | Some p \<Rightarrow>
          if \<not> pool_includes p (assigned task) then
            (case sel p of Inl e \<Rightarrow> Inl e | Inr x \<Rightarrow> Inr (Put x))
          else Inr Undefined)"

definition updatedTask :: "UpdateHouseTasksDto \<Rightarrow> string upd \<Rightarrow> TaskUpdate" where
  "updatedTask dto a =
     \<lparr> upd_name = m_name dto, upd_description = m_description dto, upd_pool = m_pool dto,
       upd_assigned = a, upd_due_date = Keep, upd_last_completed = Keep \<rparr>"

definition modifyTask ::
  "(string \<Rightarrow> bool) \<Rightarrow> (string list \<Rightarrow> error + string) \<Rightarrow> db \<Rightarrow> string \<Rightarrow> string
    \<Rightarrow> UpdateHouseTasksDto \<Rightarrow> (error + unit) \<times> db" where
  "modifyTask valid sel d uid tid dto =
     (case findOneByFirebaseId uid d of
        None \<Rightarrow> (Inl TypeError, d)
      | Some userDoc \<Rightarrow>
          (case user_house userDoc of
             None \<Rightarrow> (Inl (HttpException ''user is not in the house'' BAD_REQUEST), d)
           | Some hid \<Rightarrow>
               if \<not> valid tid then (Inl (HttpException ''task does not exist'' NOT_FOUND), d)
               else
                 (case taskStore_findOne tid d of
                    None \<Rightarrow> (Inl (HttpException ''task does not exist'' NOT_FOUND), d)
                  | Some task \<Rightarrow>
                      (case houseStore_findOne hid d of
                         None \<Rightarrow> (Inl TypeError, d)
                       | Some h \<Rightarrow>
                           if owner h \<noteq> user_id userDoc then
                             (Inl (HttpException ''user is not owner of house'' BAD_REQUEST), d)
                           else
                             (case modify_assigned sel task dto of
                                Inl e \<Rightarrow> (Inl e, d)
                              | Inr a \<Rightarrow>
                                  (Inr (),
                                   taskStore_update (task_id task) (updatedTask dto a) d))))))"

section \<open>HouseController\<close>

text \<open>
  \<^verbatim>\<open>house.controller.ts\<close> has handlers of its own for creating and deleting a task; its
  utilities are those of \<^verbatim>\<open>houseUtil\<close>.
\<close>

definition HouseController_createTask ::
  "(string list \<Rightarrow> error + string) \<Rightarrow> string \<Rightarrow> db \<Rightarrow> string \<Rightarrow> CreateTaskDto
    \<Rightarrow> (error + unit) \<times> db" where
  "HouseController_createTask sel oid d uid dto =
     (case findOneByFirebaseId uid d of
        None \<Rightarrow> (Inl TypeError, d)
      | Some userDoc \<Rightarrow>
          (case user_house userDoc of
             None \<Rightarrow> (Inl NotInHouseholdError, d)
           | Some hid \<Rightarrow>
               (case houseStore_findOne hid d of
                  None \<Rightarrow> (Inl NotInHouseholdError, d)
                | Some h \<Rightarrow>
                    (case sel (c_pool dto) of
                       Inl e \<Rightarrow> (Inl e, d)
                     | Inr a \<Rightarrow>
                         (Inr (),
                          taskStore_create
                            (new_task oid (dto\<lparr>c_assigned := Some a, c_house := house_id h\<rparr>))
                            d)))))"

definition HouseController_deleteTaskFromHouse ::
  "db \<Rightarrow> string \<Rightarrow> string \<Rightarrow> (error + nat \<times> string) \<times> db" where
  "HouseController_deleteTaskFromHouse d uid tid =
     (case findOneByFirebaseId uid d of
        None \<Rightarrow> (Inl TypeError, d)
      | Some userDoc \<Rightarrow>
          (case user_house userDoc of
             None \<Rightarrow> (Inl (HttpException ''user is not in the house'' BAD_REQUEST), d)
           | Some hid \<Rightarrow>
               (case houseStore_findOne hid d of
                  None \<Rightarrow> (Inl TypeError, d)
                | Some h \<Rightarrow>
                    if owner h = user_id userDoc then
                      (case taskStore_findOne tid d of
                         None \<Rightarrow> (Inl TypeError, d)
                       | Some task \<Rightarrow>
                           (Inr (204, ''task deleted successfully''),
                            taskStore_delete (task_id task) d))
                    else (Inl NotOwnerError, d))))"

section \<open>A household scenario\<close>

text \<open>
  Two households for the concrete runs below: alice owns \<open>h1\<close>, where bob is a member;
  carol owns \<open>h2\<close>. Task \<open>t1\<close> belongs to \<open>h1\<close> and is assigned to bob, task \<open>t2\<close> belongs
  to \<open>h2\<close> and has no assignee.
\<close>

definition ex_task :: TaskDocument where
  "ex_task =
     \<lparr> task_id = ''t1'', house = ''h1'', name = ''bins'', description = ''take out'',
       pool = [''bob'', ''alice''], assigned = Some ''bob'', interval = Some 86400,
       due_date = Some 1000, last_completed = Some 900 \<rparr>"

definition ex_task2 :: TaskDocument where
  "ex_task2 =
     \<lparr> task_id = ''t2'', house = ''h2'', name = ''dishes'', description = ''wash'',
       pool = [''carol'', ''dave''], assigned = None, interval = Some 60,
       due_date = Some 500, last_completed = None \<rparr>"

definition ex_db :: db where
  "ex_db =
     \<lparr> users =
         [\<lparr> user_id = ''u1'', firebaseId = ''alice'', user_house = Some ''h1'' \<rparr>,
          \<lparr> user_id = ''u2'', firebaseId = ''bob'', user_house = Some ''h1'' \<rparr>,
          \<lparr> user_id = ''u3'', firebaseId = ''carol'', user_house = Some ''h2'' \<rparr>],
       houses =
         [\<lparr> house_id = ''h1'', owner = ''u1'', code = ''aaaaaaaa'' \<rparr>,
          \<lparr> house_id = ''h2'', owner = ''u3'', code = ''bbbbbbbb'' \<rparr>],
       tasks = [ex_task, ex_task2],
       omitUndefined = False \<rparr>"




definition ex_create :: CreateTaskDto where
  "ex_create =
     \<lparr> c_name = ''lawn'', c_description = ''mow'', c_pool = [], c_interval = Some 3600,
       c_due_date = Some 2000, c_assigned = None, c_house = [] \<rparr>"

definition ex_repool :: UpdateHouseTasksDto where
  "ex_repool = \<lparr> m_name = None, m_description = None, m_pool = Some [''alice'', ''erin''] \<rparr>"

section \<open>Facts about the stores and the scenario\<close>

lemma find_task_id: "List.find (\<lambda>t. task_id t = tid) ts = Some t \<Longrightarrow> task_id t = tid"
  by (induction ts) (auto split: if_splits)

lemma task_id_apply_update [simp]: "task_id (apply_update p t) = task_id t"
  by (simp add: apply_update_def)

lemma house_apply_update [simp]: "house (apply_update p t) = house t"
  by (simp add: apply_update_def)

lemma update_first_index:
  "List.find (\<lambda>t. task_id t = tid) ts = Some t \<Longrightarrow>
     \<exists>k < length ts. ts ! k = t \<and> update_first tid p ts = ts[k := apply_update p t]"
proof (induction ts)
  case Nil
  then show ?case by simp
next
  case (Cons a ts)
  show ?case
  proof (cases "task_id a = tid")
    case True
    with Cons.prems have "a = t" by simp
    with True show ?thesis by (intro exI [of _ 0]) simp
  next
    case False
    with Cons obtain k where "k < length ts" "ts ! k = t"
      "update_first tid p ts = ts[k := apply_update p t]" by auto
    with False show ?thesis by (intro exI [of _ "Suc k"]) simp
  qed
qed

lemma find_update_first:
  "List.find (\<lambda>t. task_id t = i) (update_first tid p ts) =
     (if i = tid then map_option (apply_update p) (List.find (\<lambda>t. task_id t = tid) ts)
      else List.find (\<lambda>t. task_id t = i) ts)"
  by (induction ts) auto

lemma delete_first_remove1:
  "List.find (\<lambda>t. task_id t = tid) ts = Some t \<Longrightarrow> delete_first tid ts = remove1 t ts"
  by (induction ts) (auto split: if_splits dest: find_task_id)

lemma tasks_taskStore_update [simp]:
  "tasks (taskStore_update tid p d) = update_first tid (castUpdate (omitUndefined d) p) (tasks d)"
  "users (taskStore_update tid p d) = users d"
  "houses (taskStore_update tid p d) = houses d"
  "omitUndefined (taskStore_update tid p d) = omitUndefined d"
  by (simp_all add: taskStore_update_def)

lemma ex_alice:
  "findOneByFirebaseId ''alice'' ex_db
     = Some \<lparr> user_id = ''u1'', firebaseId = ''alice'', user_house = Some ''h1'' \<rparr>"
  by (simp add: findOneByFirebaseId_def ex_db_def)

lemma ex_bob:
  "findOneByFirebaseId ''bob'' ex_db
     = Some \<lparr> user_id = ''u2'', firebaseId = ''bob'', user_house = Some ''h1'' \<rparr>"
  by (simp add: findOneByFirebaseId_def ex_db_def)

lemma ex_carol:
  "findOneByFirebaseId ''carol'' ex_db
     = Some \<lparr> user_id = ''u3'', firebaseId = ''carol'', user_house = Some ''h2'' \<rparr>"
  by (simp add: findOneByFirebaseId_def ex_db_def)

lemma ex_h1:
  "houseStore_findOne ''h1'' ex_db = Some \<lparr> house_id = ''h1'', owner = ''u1'', code = ''aaaaaaaa'' \<rparr>"
  by (simp add: houseStore_findOne_def ex_db_def)

lemma ex_h2:
  "houseStore_findOne ''h2'' ex_db = Some \<lparr> house_id = ''h2'', owner = ''u3'', code = ''bbbbbbbb'' \<rparr>"
  by (simp add: houseStore_findOne_def ex_db_def)

lemma ex_tasks: "tasks ex_db = [ex_task, ex_task2]"
  by (simp add: ex_db_def)

lemma ex_t1: "taskStore_findOne ''t1'' ex_db = Some ex_task"
  by (simp add: taskStore_findOne_def ex_tasks) (simp add: ex_task_def)

lemma findOne_after_update:
  "taskStore_findOne tid d = Some t \<Longrightarrow>
     taskStore_findOne tid (taskStore_update tid p d)
       = Some (apply_update (castUpdate (omitUndefined d) p) t)"
  by (simp add: taskStore_findOne_def find_update_first)

lemma find_house_id: "List.find (\<lambda>h. house_id h = hid) hs = Some h \<Longrightarrow> house_id h = hid"
  by (induction hs) (auto split: if_splits)





lemma write_back_Nil [simp]: "write_back [] d = d"
  by (simp add: write_back_def)

lemma write_back_Cons [simp]:
  "write_back ((i, p) # due) d = write_back due (taskStore_update i p d)"
  by (simp add: write_back_def)


lemma delete_first_found:
  "taskStore_findOne tid d = Some task \<Longrightarrow>
     taskStore_delete (task_id task) d = d\<lparr>tasks := remove1 task (tasks d)\<rparr>"
proof -
  assume f: "taskStore_findOne tid d = Some task"
  then have "task_id task = tid" unfolding taskStore_findOne_def by (rule find_task_id)
  with f show ?thesis
    by (simp add: taskStore_delete_def taskStore_findOne_def delete_first_remove1)
qed




lemma update_first_ids [simp]: "map task_id (update_first i p ts) = map task_id ts"
  by (induction ts) auto

lemma update_first_houses [simp]: "map house (update_first i p ts) = map house ts"
  by (induction ts) auto


lemma write_all_Nil [simp]: "write_all omit [] ts = ts"
  by (simp add: write_all_def)

lemma write_all_Cons [simp]:
  "write_all omit ((i, p) # due) ts = write_all omit due (update_first i (castUpdate omit p) ts)"
  by (simp add: write_all_def)


lemma write_all_ids [simp]: "map task_id (write_all omit due ts) = map task_id ts"
  by (induction due arbitrary: ts) auto

lemma write_all_houses [simp]: "map house (write_all omit due ts) = map house ts"
  by (induction due arbitrary: ts) auto










section \<open>Recurrence\<close>

text \<open>
  Claim C1. For a task with due date \<open>T\<close> and interval \<open>I\<close>, the evaluation at an instant
  \<open>now < T + I\<close> answers that the task is not due and produces no change (no rollover,
  and no entry in the result of the sweep); at \<open>now \<ge> T + I\<close> it answers that the task is
  due, with a rollover whose due date is \<open>T + I\<close> and whose \<^verbatim>\<open>last_completed\<close> is unset. The
  task is well formed in the sense of the data model: when it has no assignee its pool
  is not empty, so that the Assignment Selector can pick one.
\<close>

theorem recurrence_threshold:
  assumes "due_date t = Some T" and "interval t = Some I"
    and "assigned t = None \<longrightarrow> pool t \<noteq> []"
  shows "(now < T + I \<longrightarrow>
            evaluate (rnd 0) now t = Inr (False, None) \<and> checkRecurrence rnd now [t] = Inr [])
       \<and> (T + I \<le> now \<longrightarrow>
            (\<exists>u. evaluate (rnd 0) now t = Inr (True, Some u)
               \<and> checkRecurrence rnd now [t] = Inr [(task_id t, u)]
               \<and> upd_due_date u = Put (T + I) \<and> upd_last_completed u = Clear
               \<and> due_date (apply_update u t) = Some (T + I)
               \<and> last_completed (apply_update u t) = None))"
proof (intro conjI impI)
  assume "now < T + I"
  with assms show "evaluate (rnd 0) now t = Inr (False, None)"
    by (simp add: evaluate_def)
  then show "checkRecurrence rnd now [t] = Inr []" by simp
next
  assume due: "T + I \<le> now"
  obtain a where a: "evaluate (rnd 0) now t = Inr (True, Some (rollover (T + I) a))"
  proof (cases "assigned t")
    case None
    with assms(3) have "pool t \<noteq> []" by simp
    with None assms(1,2) due that [of "Put (pool t ! (rnd 0 mod length (pool t)))"]
    show ?thesis by (simp add: evaluate_def selectRandomUser_def)
  next
    case (Some b)
    with assms(1,2) due that [of Keep] show ?thesis by (simp add: evaluate_def)
  qed
  show "\<exists>u. evaluate (rnd 0) now t = Inr (True, Some u)
               \<and> checkRecurrence rnd now [t] = Inr [(task_id t, u)]
               \<and> upd_due_date u = Put (T + I) \<and> upd_last_completed u = Clear
               \<and> due_date (apply_update u t) = Some (T + I)
               \<and> last_completed (apply_update u t) = None"
    using a by (intro exI [of _ "rollover (T + I) a"]) (simp add: rollover_def apply_update_def)
qed

theorem recurrence_threshold_witness:
  "evaluate 7 87399 ex_task = Inr (False, None)
   \<and> checkRecurrence (\<lambda>i. 7) 87399 [ex_task] = Inr []
   \<and> (\<exists>u. evaluate 7 87400 ex_task = Inr (True, Some u)
         \<and> checkRecurrence (\<lambda>i. 7) 87400 [ex_task] = Inr [(task_id ex_task, u)]
         \<and> upd_due_date u = Put (1000 + 86400) \<and> upd_last_completed u = Clear
         \<and> due_date (apply_update u ex_task) = Some (1000 + 86400)
         \<and> last_completed (apply_update u ex_task) = None)"
proof -
  have h: "due_date ex_task = Some 1000" "interval ex_task = Some 86400"
    "assigned ex_task = None \<longrightarrow> pool ex_task \<noteq> []"
    by (simp_all add: ex_task_def)
  note r = recurrence_threshold [OF h, of _ "\<lambda>i. 7"]
  have lt: "(87399::int) < 1000 + 86400" and ge: "(1000::int) + 86400 \<le> 87400" by simp_all
  from r [of 87399] lt r [of 87400] ge show ?thesis by blast
qed

text \<open>
  Claim C2. A task that is due keeps its assignee through the rollover when one is set:
  the payload has no \<^verbatim>\<open>assigned\<close> key. When none is set the evaluation calls the Assignment
  Selector on the pool of the task, and with a pool that is not empty the assignee of
  the rollover is the element of the pool that the selector picked.
\<close>

theorem rollover_assignee:
  assumes "due_date t = Some T" and "interval t = Some I" and "T + I \<le> now"
  shows "(\<forall>a. assigned t = Some a \<longrightarrow>
            (\<exists>u. evaluate rnd now t = Inr (True, Some u) \<and> upd_assigned u = Keep
               \<and> assigned (apply_update u t) = Some a))
       \<and> (assigned t = None \<longrightarrow>
            evaluate rnd now t =
              (case selectRandomUser rnd (pool t) of
                 Inl e \<Rightarrow> Inl e
               | Inr x \<Rightarrow> Inr (True, Some (rollover (T + I) (Put x)))))
       \<and> (assigned t = None \<and> pool t \<noteq> [] \<longrightarrow>
            (\<exists>x u. selectRandomUser rnd (pool t) = Inr x \<and> x \<in> set (pool t)
               \<and> evaluate rnd now t = Inr (True, Some u) \<and> upd_assigned u = Put x
               \<and> assigned (apply_update u t) = Some x))"
proof (intro conjI allI impI)
  fix a assume "assigned t = Some a"
  with assms have "evaluate rnd now t = Inr (True, Some (rollover (T + I) Keep))"
    by (simp add: evaluate_def)
  moreover have "assigned (apply_update (rollover (T + I) Keep) t) = Some a"
    using \<open>assigned t = Some a\<close> by (simp add: apply_update_def rollover_def)
  ultimately show "\<exists>u. evaluate rnd now t = Inr (True, Some u) \<and> upd_assigned u = Keep
      \<and> assigned (apply_update u t) = Some a"
    by (intro exI [of _ "rollover (T + I) Keep"]) (simp add: rollover_def)
next
  assume "assigned t = None"
  with assms show "evaluate rnd now t =
      (case selectRandomUser rnd (pool t) of
         Inl e \<Rightarrow> Inl e
       | Inr x \<Rightarrow> Inr (True, Some (rollover (T + I) (Put x))))"
    by (simp add: evaluate_def)
next
  assume h: "assigned t = None \<and> pool t \<noteq> []"
  define x where "x = pool t ! (rnd mod length (pool t))"
  from h have sel: "selectRandomUser rnd (pool t) = Inr x"
    by (simp add: selectRandomUser_def x_def)
  from h have mem: "x \<in> set (pool t)" by (simp add: x_def)
  from h sel assms have ev: "evaluate rnd now t = Inr (True, Some (rollover (T + I) (Put x)))"
    by (simp add: evaluate_def)
  show "\<exists>x u. selectRandomUser rnd (pool t) = Inr x \<and> x \<in> set (pool t)
      \<and> evaluate rnd now t = Inr (True, Some u) \<and> upd_assigned u = Put x
      \<and> assigned (apply_update u t) = Some x"
    using sel mem ev
    by (intro exI [of _ x] exI [of _ "rollover (T + I) (Put x)"])
       (simp add: rollover_def apply_update_def)
qed

theorem rollover_assignee_witness:
  "(\<exists>u. evaluate 3 87400 ex_task = Inr (True, Some u) \<and> upd_assigned u = Keep
       \<and> assigned (apply_update u ex_task) = Some ''bob'')
   \<and> (\<exists>x u. selectRandomUser 3 (pool ex_task2) = Inr x \<and> x \<in> set (pool ex_task2)
       \<and> evaluate 3 560 ex_task2 = Inr (True, Some u) \<and> upd_assigned u = Put x
       \<and> assigned (apply_update u ex_task2) = Some x)"
proof -
  have a: "due_date ex_task = Some 1000" "interval ex_task = Some 86400"
    "(1000::int) + 86400 \<le> 87400" "assigned ex_task = Some ''bob''"
    by (simp_all add: ex_task_def)
  have b: "due_date ex_task2 = Some 500" "interval ex_task2 = Some 60"
    "(500::int) + 60 \<le> 560" "assigned ex_task2 = None \<and> pool ex_task2 \<noteq> []"
    by (simp_all add: ex_task2_def)
  from rollover_assignee [OF a(1-3), of 3] a(4) rollover_assignee [OF b(1-3), of 3] b(4)
  show ?thesis by blast
qed

section \<open>Editing a task\<close>

text \<open>
  An edit that does not reassign. When the owner of a house edits an existing task with
  no pool, or with a pool that still contains the assignee, the conditional expression
  of \<^verbatim>\<open>modifyTask\<close> takes its last branch, whatever the selector: the payload carries
  \<^verbatim>\<open>assigned: undefined\<close>, although the handler first built it with the stored assignee.
  What the task then holds is decided by the store: the assignee as it was when the
  store drops the key, no assignee when it writes it.
\<close>

lemma modify_assigned_undefined:
  "m_pool dto = None \<or> (\<exists>p. m_pool dto = Some p \<and> pool_includes p (assigned task)) \<Longrightarrow>
     modify_assigned sel task dto = Inr Undefined"
  by (auto simp add: modify_assigned_def)

lemma modifyTask_assignee_after_edit:
  assumes "findOneByFirebaseId uid d = Some userDoc" and "user_house userDoc = Some hid"
    and "houseStore_findOne hid d = Some h" and "owner h = user_id userDoc"
    and "valid tid" and "taskStore_findOne tid d = Some task"
    and "m_pool dto = None \<or> (\<exists>p. m_pool dto = Some p \<and> pool_includes p (assigned task))"
  shows "modifyTask valid sel d uid tid dto
           = (Inr (), taskStore_update tid (updatedTask dto Undefined) d)
       \<and> map_option assigned
           (taskStore_findOne tid (taskStore_update tid (updatedTask dto Undefined) d))
         = Some (if omitUndefined d then assigned task else None)"
proof -
  from assms(6) have tid: "task_id task = tid"
    unfolding taskStore_findOne_def by (rule find_task_id)
  from assms(1-6) tid modify_assigned_undefined [OF assms(7), of sel]
  have "modifyTask valid sel d uid tid dto
      = (Inr (), taskStore_update tid (updatedTask dto Undefined) d)"
    by (simp add: modifyTask_def)
  moreover have "map_option assigned
      (taskStore_findOne tid (taskStore_update tid (updatedTask dto Undefined) d))
      = Some (if omitUndefined d then assigned task else None)"
    by (simp add: findOne_after_update [OF assms(6)] apply_update_def updatedTask_def
        castUpdate_def)
  ultimately show ?thesis by simp
qed

text \<open>
  Claim C4. When the owner of a house edits an existing task with a new pool that is not
  empty and does not contain the current assignee of the task, the handler asks the
  Assignment Selector for an assignee out of the new pool and stores it: the task read
  back has the new pool, and its assignee is the selected element of that pool.
\<close>

theorem modifyTask_reassigns_from_new_pool:
  assumes "findOneByFirebaseId uid d = Some userDoc" and "user_house userDoc = Some hid"
    and "houseStore_findOne hid d = Some h" and "owner h = user_id userDoc"
    and "valid tid" and "taskStore_findOne tid d = Some task"
    and "m_pool dto = Some p" and "p \<noteq> []" and "\<not> pool_includes p (assigned task)"
  shows "\<exists>x t'. selectRandomUser rnd p = Inr x \<and> x \<in> set p
           \<and> modifyTask valid (selectRandomUser rnd) d uid tid dto
               = (Inr (), taskStore_update tid (updatedTask dto (Put x)) d)
           \<and> taskStore_findOne tid (taskStore_update tid (updatedTask dto (Put x)) d) = Some t'
           \<and> assigned t' = Some x \<and> pool t' = p \<and> assigned t' \<in> Some ` set (pool t')"
proof -
  define x where "x = p ! (rnd mod length p)"
  from assms(8) have sel: "selectRandomUser rnd p = Inr x" and mem: "x \<in> set p"
    by (simp_all add: selectRandomUser_def x_def)
  from assms(6) have tid: "task_id task = tid"
    unfolding taskStore_findOne_def by (rule find_task_id)
  from assms(7,9) sel have ma: "modify_assigned (selectRandomUser rnd) task dto = Inr (Put x)"
    by (simp add: modify_assigned_def)
  from assms(1-6) ma tid
  have run: "modifyTask valid (selectRandomUser rnd) d uid tid dto
      = (Inr (), taskStore_update tid (updatedTask dto (Put x)) d)"
    by (simp add: modifyTask_def)
  define t' where
    "t' = apply_update (castUpdate (omitUndefined d) (updatedTask dto (Put x))) task"
  from assms(6)
  have found: "taskStore_findOne tid (taskStore_update tid (updatedTask dto (Put x)) d) = Some t'"
    by (simp add: taskStore_findOne_def find_update_first t'_def)
  from assms(7) have fields: "assigned t' = Some x" "pool t' = p"
    by (simp_all add: t'_def apply_update_def updatedTask_def castUpdate_def)
  show ?thesis
    using sel mem run found fields by (intro exI [of _ x] exI [of _ t']) simp
qed

theorem modifyTask_reassigns_from_new_pool_witness:
  "\<exists>x t'. selectRandomUser 5 [''alice'', ''erin''] = Inr x \<and> x \<in> set [''alice'', ''erin'']
     \<and> modifyTask (\<lambda>i. True) (selectRandomUser 5) ex_db ''alice'' ''t1'' ex_repool
         = (Inr (), taskStore_update ''t1'' (updatedTask ex_repool (Put x)) ex_db)
     \<and> taskStore_findOne ''t1'' (taskStore_update ''t1'' (updatedTask ex_repool (Put x)) ex_db)
         = Some t'
     \<and> assigned t' = Some x \<and> pool t' = [''alice'', ''erin'']
     \<and> assigned t' \<in> Some ` set (pool t')"
proof -
  have p: "m_pool ex_repool = Some [''alice'', ''erin'']" "[''alice'', ''erin''] \<noteq> []"
    "\<not> pool_includes [''alice'', ''erin''] (assigned ex_task)"
    by (simp_all add: ex_repool_def pool_includes_def ex_task_def)
  show ?thesis
    by (rule modifyTask_reassigns_from_new_pool
        [where valid = "\<lambda>i. True" and rnd = 5, OF ex_alice _ ex_h1 _ _ ex_t1 p])
      simp_all
qed

section \<open>Listing the tasks of a house\<close>




section \<open>Creating a task\<close>

lemma createTask_empty_pool:
  assumes "findOneByFirebaseId uid d = Some userDoc" and "user_house userDoc = Some hid"
    and "houseStore_findOne hid d = Some h" and "c_pool dto = []"
  shows "createTask sel oid d uid dto = (Inl EmptyPoolError, d)"
  using assms by (simp add: createTask_def)

text \<open>
  Claim C6, on the code. Bob, a member of house \<open>h1\<close>, sends a create request with an empty
  pool. \<^verbatim>\<open>createTask\<close> of \<^verbatim>\<open>tasks.controller.ts\<close> refuses it with \<open>EmptyPoolError\<close>, as
  \<open>createTask_empty_pool\<close> shows for every caller in a house. \<^verbatim>\<open>createTask\<close> of
  \<^verbatim>\<open>house.controller.ts\<close>, bound to the same route, has no such check: it calls the
  selector on the empty pool, and the request ends with the failure of the selector,
  not with \<open>EmptyPoolError\<close>.
\<close>

theorem HouseController_createTask_empty_pool:
  "c_pool ex_create = []
   \<and> findOneByFirebaseId ''bob'' ex_db
       = Some \<lparr> user_id = ''u2'', firebaseId = ''bob'', user_house = Some ''h1'' \<rparr>
   \<and> HouseController_createTask (selectRandomUser 0) ''t3'' ex_db ''bob'' ex_create
       = (Inl InvalidPoolError, ex_db)
   \<and> HouseController_createTask (selectRandomUser 0) ''t3'' ex_db ''bob'' ex_create
       \<noteq> (Inl EmptyPoolError, ex_db)
   \<and> createTask (selectRandomUser 0) ''t3'' ex_db ''bob'' ex_create = (Inl EmptyPoolError, ex_db)"
proof -
  have p: "c_pool ex_create = []" by (simp add: ex_create_def)
  have a: "HouseController_createTask (selectRandomUser 0) ''t3'' ex_db ''bob'' ex_create
       = (Inl InvalidPoolError, ex_db)"
    by (simp add: HouseController_createTask_def ex_bob ex_h1 p selectRandomUser_def)
  have b: "createTask (selectRandomUser 0) ''t3'' ex_db ''bob'' ex_create
       = (Inl EmptyPoolError, ex_db)"
    by (simp add: createTask_def ex_bob ex_h1 p)
  from p a b ex_bob show ?thesis by simp
qed

text \<open>
  Claim C10. \<^verbatim>\<open>createTask\<close> of \<^verbatim>\<open>house.controller.ts\<close> does not look at the size of the pool:
  for a caller in a house the outcome is whatever the selector answers on the pool as it
  was supplied. With an empty pool the task is created whenever the selector returns an
  assignee, and a failure of the request is the failure of the selector.
\<close>

theorem HouseController_createTask_unchecked:
  assumes "findOneByFirebaseId uid d = Some userDoc" and "user_house userDoc = Some hid"
    and "houseStore_findOne hid d = Some h"
  shows "HouseController_createTask sel oid d uid dto
           = (case sel (c_pool dto) of
                Inl e \<Rightarrow> (Inl e, d)
              | Inr a \<Rightarrow>
                  (Inr (),
                   taskStore_create (new_task oid (dto\<lparr>c_assigned := Some a, c_house := hid\<rparr>)) d))
       \<and> (\<forall>a. c_pool dto = [] \<and> sel [] = Inr a \<longrightarrow>
             HouseController_createTask sel oid d uid dto
               = (Inr (),
                  d\<lparr>tasks := tasks d @
                     [new_task oid (dto\<lparr>c_assigned := Some a, c_house := hid\<rparr>)]\<rparr>))
       \<and> (\<forall>e. c_pool dto = [] \<and> sel [] = Inl e \<longrightarrow>
             HouseController_createTask sel oid d uid dto = (Inl e, d))"
proof -
  from assms(3) have "house_id h = hid"
    unfolding houseStore_findOne_def by (rule find_house_id)
  with assms show ?thesis
    by (auto simp add: HouseController_createTask_def taskStore_create_def split: sum.splits)
qed

theorem HouseController_createTask_unchecked_witness:
  "c_pool ex_create = []
   \<and> HouseController_createTask (\<lambda>p. Inr ''bob'') ''t3'' ex_db ''bob'' ex_create
       = (Inr (),
          ex_db\<lparr>tasks := tasks ex_db @
             [new_task ''t3'' (ex_create\<lparr>c_assigned := Some ''bob'', c_house := ''h1''\<rparr>)]\<rparr>)
   \<and> HouseController_createTask (selectRandomUser 0) ''t3'' ex_db ''bob'' ex_create
       = (Inl InvalidPoolError, ex_db)"
proof -
  have p: "c_pool ex_create = []" by (simp add: ex_create_def)
  have s: "selectRandomUser 0 [] = Inl InvalidPoolError" by (simp add: selectRandomUser_def)
  note r = HouseController_createTask_unchecked [OF ex_bob _ ex_h1, of _ "''t3''" ex_create]
  from r [of "\<lambda>p. Inr ''bob''"] r [of "selectRandomUser 0"] p s show ?thesis
    by (simp add: taskStore_create_def)
qed

section \<open>Deleting a task\<close>

text \<open>
  Claim C7 as stated fails in two places. Carol owns house \<open>h2\<close> and deletes task \<open>t1\<close> of
  house \<open>h1\<close>, which alice owns: carol is not the owner of the house that owns the task,
  and the request succeeds. Alice, an owner, deletes a task that does not exist: the
  handler reads \<^verbatim>\<open>_id\<close> of the missing task and ends with \<open>TypeError\<close>, not with
  \<open>TaskNotFoundError\<close>.
\<close>

theorem deleteTaskFromHouse_counterexample:
  "findOneByFirebaseId ''carol'' ex_db
       = Some \<lparr> user_id = ''u3'', firebaseId = ''carol'', user_house = Some ''h2'' \<rparr>
   \<and> taskStore_findOne ''t1'' ex_db = Some ex_task
   \<and> houseStore_findOne (house ex_task) ex_db
       = Some \<lparr> house_id = ''h1'', owner = ''u1'', code = ''aaaaaaaa'' \<rparr>
   \<and> deleteTaskFromHouse ex_db ''carol'' ''t1''
       = (Inr (204, ''task deleted successfully''), ex_db\<lparr>tasks := [ex_task2]\<rparr>)
   \<and> taskStore_findOne ''t0'' ex_db = None
   \<and> deleteTaskFromHouse ex_db ''alice'' ''t0'' = (Inl TypeError, ex_db)"
proof -
  have h: "house ex_task = ''h1''" "task_id ex_task = ''t1''" by (simp_all add: ex_task_def)
  have r: "remove1 ex_task (tasks ex_db) = [ex_task2]" by (simp add: ex_tasks)
  have a: "deleteTaskFromHouse ex_db ''carol'' ''t1''
       = (Inr (204, ''task deleted successfully''), ex_db\<lparr>tasks := [ex_task2]\<rparr>)"
    by (simp add: deleteTaskFromHouse_def ex_carol ex_h2 ex_t1 delete_first_found [OF ex_t1] r)
  have n: "taskStore_findOne ''t0'' ex_db = None"
    by (simp add: taskStore_findOne_def ex_tasks) (simp add: ex_task_def ex_task2_def)
  have b: "deleteTaskFromHouse ex_db ''alice'' ''t0'' = (Inl TypeError, ex_db)"
    by (simp add: deleteTaskFromHouse_def ex_alice ex_h1 n)
  from ex_carol ex_t1 ex_h1 h a n b show ?thesis by simp
qed

text \<open>
  Claim C7, amended. For a delete request from a caller in a house: when the caller is
  not the owner of the caller's own house the request fails with \<open>NotOwnerError\<close> and
  nothing changes; when the caller is the owner of that house and the task exists, the
  task is removed from the store and the answer is the success with status 204.
\<close>

theorem deleteTaskFromHouse_owner_guard:
  assumes "findOneByFirebaseId uid d = Some userDoc" and "user_house userDoc = Some hid"
    and "houseStore_findOne hid d = Some h"
  shows "(owner h \<noteq> user_id userDoc \<longrightarrow> deleteTaskFromHouse d uid tid = (Inl NotOwnerError, d))
       \<and> (\<forall>task. owner h = user_id userDoc \<and> taskStore_findOne tid d = Some task \<longrightarrow>
             deleteTaskFromHouse d uid tid
               = (Inr (204, ''task deleted successfully''), d\<lparr>tasks := remove1 task (tasks d)\<rparr>))"
  using assms by (auto simp add: deleteTaskFromHouse_def delete_first_found)

theorem deleteTaskFromHouse_owner_guard_witness:
  "deleteTaskFromHouse ex_db ''bob'' ''t1'' = (Inl NotOwnerError, ex_db)
   \<and> deleteTaskFromHouse ex_db ''alice'' ''t1''
       = (Inr (204, ''task deleted successfully''),
          ex_db\<lparr>tasks := remove1 ex_task (tasks ex_db)\<rparr>)"
  using deleteTaskFromHouse_owner_guard [OF ex_bob _ ex_h1, of "''t1''"]
    deleteTaskFromHouse_owner_guard [OF ex_alice _ ex_h1, of "''t1''"] ex_t1
  by simp

text \<open>
  Claim C9. Neither \<^verbatim>\<open>deleteTaskFromHouse\<close> compares the house of the task with the
  house of the caller: whoever owns the house they are in deletes any existing task,
  whatever house it belongs to.
\<close>

theorem delete_ignores_task_household:
  assumes "findOneByFirebaseId uid d = Some userDoc" and "user_house userDoc = Some hid"
    and "houseStore_findOne hid d = Some h" and "owner h = user_id userDoc"
    and "taskStore_findOne tid d = Some task"
  shows "deleteTaskFromHouse d uid tid
           = (Inr (204, ''task deleted successfully''), d\<lparr>tasks := remove1 task (tasks d)\<rparr>)
       \<and> HouseController_deleteTaskFromHouse d uid tid
           = (Inr (204, ''task deleted successfully''), d\<lparr>tasks := remove1 task (tasks d)\<rparr>)"
  using assms
  by (simp add: deleteTaskFromHouse_def HouseController_deleteTaskFromHouse_def
      delete_first_found)

theorem delete_ignores_task_household_witness:
  "house ex_task = ''h1''
   \<and> user_house \<lparr> user_id = ''u3'', firebaseId = ''carol'', user_house = Some ''h2'' \<rparr>
       = Some ''h2''
   \<and> deleteTaskFromHouse ex_db ''carol'' ''t1''
       = (Inr (204, ''task deleted successfully''),
          ex_db\<lparr>tasks := remove1 ex_task (tasks ex_db)\<rparr>)
   \<and> HouseController_deleteTaskFromHouse ex_db ''carol'' ''t1''
       = (Inr (204, ''task deleted successfully''),
          ex_db\<lparr>tasks := remove1 ex_task (tasks ex_db)\<rparr>)"
proof -
  have "house ex_task = ''h1''" by (simp add: ex_task_def)
  with delete_ignores_task_household [OF ex_carol _ ex_h2 _ ex_t1] show ?thesis by simp
qed

section \<open>Completing a task\<close>

text \<open>
  Claim C8. For a complete or uncomplete request on an existing task: when the caller is
  not the assignee of the task the request fails with \<open>NotAssignedError\<close> and the store is
  as it was; otherwise the store differs in that one document only, and there only in
  \<^verbatim>\<open>last_completed\<close>, which is the current instant after completing and unset after
  uncompleting.
\<close>

theorem markTaskAsComplete_guard:
  assumes "valid tid" and "taskStore_findOne tid d = Some task"
  shows "(assigned task \<noteq> Some uid \<longrightarrow>
            markTaskAsComplete valid now d uid tid c = (Inl NotAssignedError, d))
       \<and> (assigned task = Some uid \<longrightarrow>
            (\<exists>k < length (tasks d). tasks d ! k = task
               \<and> markTaskAsComplete valid now d uid tid c
                   = (Inr (),
                      d\<lparr>tasks := (tasks d)
                         [k := task\<lparr>last_completed := (if c then Some now else None)\<rparr>]\<rparr>)))"
proof (intro conjI impI)
  assume "assigned task \<noteq> Some uid"
  with assms show "markTaskAsComplete valid now d uid tid c = (Inl NotAssignedError, d)"
    by (simp add: markTaskAsComplete_def)
next
  assume a: "assigned task = Some uid"
  from assms(2) have tid: "task_id task = tid"
    unfolding taskStore_findOne_def by (rule find_task_id)
  define p where "p = completed_update (if c then Put now else Clear)"
  define q where "q = castUpdate (omitUndefined d) p"
  from assms(2) obtain k where k: "k < length (tasks d)" "tasks d ! k = task"
    "update_first tid q (tasks d) = (tasks d)[k := apply_update q task]"
    unfolding taskStore_findOne_def by (blast dest: update_first_index)
  have ap: "apply_update q task = task\<lparr>last_completed := (if c then Some now else None)\<rparr>"
    by (simp add: q_def p_def castUpdate_def completed_update_def apply_update_def)
  from assms a tid
  have "markTaskAsComplete valid now d uid tid c = (Inr (), taskStore_update tid p d)"
    by (simp add: markTaskAsComplete_def p_def)
  with k ap show "\<exists>k < length (tasks d). tasks d ! k = task
      \<and> markTaskAsComplete valid now d uid tid c
          = (Inr (),
             d\<lparr>tasks := (tasks d)
                [k := task\<lparr>last_completed := (if c then Some now else None)\<rparr>]\<rparr>)"
    by (intro exI [of _ k]) (simp add: taskStore_update_def q_def)
qed

theorem markTaskAsComplete_guard_witness:
  "markTaskAsComplete (\<lambda>i. True) 5000 ex_db ''alice'' ''t1'' True = (Inl NotAssignedError, ex_db)
   \<and> (\<exists>k < length (tasks ex_db). tasks ex_db ! k = ex_task
        \<and> markTaskAsComplete (\<lambda>i. True) 5000 ex_db ''bob'' ''t1'' True
            = (Inr (), ex_db\<lparr>tasks := (tasks ex_db)
                 [k := ex_task\<lparr>last_completed := Some 5000\<rparr>]\<rparr>))
   \<and> (\<exists>k < length (tasks ex_db). tasks ex_db ! k = ex_task
        \<and> markTaskAsComplete (\<lambda>i. True) 5000 ex_db ''bob'' ''t1'' False
            = (Inr (), ex_db\<lparr>tasks := (tasks ex_db)
                 [k := ex_task\<lparr>last_completed := None\<rparr>]\<rparr>))"
proof -
  have a: "assigned ex_task \<noteq> Some ''alice''" "assigned ex_task = Some ''bob''"
    by (simp_all add: ex_task_def)
  note r = markTaskAsComplete_guard [where valid = "\<lambda>i. True" and now = 5000, OF _ ex_t1]
  from r [of "''alice''" True] r [of "''bob''" True] r [of "''bob''" False] a
  show ?thesis by simp
qed

end
